theory Spec2Isabelle
  imports Main
begin

section \<open>Text extraction service (scripts/extract-text.py)\<close>

text \<open>
  The script wraps three third-party libraries (trafilatura, BeautifulSoup, readability)
  in one adapter each and chooses between their results in \<open>extract_text\<close>. The
  libraries are not part of the repository: they appear here as parameters, one record of
  functions per library, giving what the library answers to the calls the adapters make.
  A library call either returns a value or raises; raising is the left summand of a sum
  type and carries \<open>str(e)\<close> of the exception. Inside an adapter's \<open>try\<close> only
  exceptions derived from Python's \<open>Exception\<close> are modelled (the handlers are
  \<open>except Exception\<close>).

  The three loaders \<open>get_trafilatura\<close>, \<open>get_beautifulsoup\<close> and
  \<open>get_readability\<close> catch \<open>ImportError\<close> only, and the adapters call them outside
  their \<open>try\<close>. The adapters and \<open>extract_text\<close> are first given on what the
  loaders return (record \<open>libs\<close>); the functions \<open>..._call\<close> further down add the
  import that raises something else, which leaves the loader, the adapter and
  \<open>extract_text\<close> as an exception.
\<close>

subsection \<open>Python strings\<close>

text \<open>
  A Python \<open>str\<close> is a sequence of Unicode code points; slicing and \<open>len\<close> count code
  points. String literals of the source are written with \<open>lit\<close>.
\<close>

type_synonym pystr = "nat list"

definition lit :: "string \<Rightarrow> pystr" where
  "lit s = map of_char s"

text \<open>
  \<open>str.isspace\<close> for one code point: the whitespace table of CPython, which
  \<open>str.split()\<close>, \<open>str.strip()\<close> and the class \<open>\s\<close> of \<open>re\<close> on \<open>str\<close> patterns share.
\<close>

definition py_isspace :: "nat \<Rightarrow> bool" where
  "py_isspace c \<longleftrightarrow>
     (9 \<le> c \<and> c \<le> 13) \<or> (28 \<le> c \<and> c \<le> 32) \<or> c = 133 \<or> c = 160 \<or> c = 5760 \<or>
     (8192 \<le> c \<and> c \<le> 8202) \<or> c = 8232 \<or> c = 8233 \<or> c = 8239 \<or> c = 8287 \<or> c = 12288"

text \<open>\<open>s.startswith(p)\<close>\<close>

definition startswith :: "pystr \<Rightarrow> pystr \<Rightarrow> bool" where
  "startswith s p \<longleftrightarrow> take (length p) s = p"

text \<open>\<open>s.strip()\<close>\<close>

definition py_strip :: "pystr \<Rightarrow> pystr" where
  "py_strip s = rev (dropWhile py_isspace (rev (dropWhile py_isspace s)))"

text \<open>
  \<open>re.sub(r'\s+', ' ', s)\<close>: every maximal run of whitespace becomes one space. The flag
  says whether the previous code point was whitespace (its run has been replaced already).
\<close>

fun re_sub_ws_from :: "bool \<Rightarrow> pystr \<Rightarrow> pystr" where
  "re_sub_ws_from in_run [] = []"
| "re_sub_ws_from in_run (c # cs) =
     (if py_isspace c
      then (if in_run then re_sub_ws_from True cs else 32 # re_sub_ws_from True cs)
      else c # re_sub_ws_from False cs)"

definition re_sub_ws :: "pystr \<Rightarrow> pystr" where
  "re_sub_ws s = re_sub_ws_from False s"

text \<open>
  \<open>s.split()\<close> without arguments: the maximal runs of non-whitespace, in order, no empty
  strings. \<open>cur\<close> holds the current word, reversed.
\<close>

fun py_split_from :: "pystr \<Rightarrow> pystr \<Rightarrow> pystr list" where
  "py_split_from cur [] = (if cur = [] then [] else [rev cur])"
| "py_split_from cur (c # cs) =
     (if py_isspace c
      then (if cur = [] then py_split_from [] cs else rev cur # py_split_from [] cs)
      else py_split_from (c # cur) cs)"

definition py_split :: "pystr \<Rightarrow> pystr list" where
  "py_split s = py_split_from [] s"

subsection \<open>Result schema\<close>

record ExtractedMetadata =
  title :: "pystr option"
  author :: "pystr option"
  date :: "pystr option"
  description :: "pystr option"
  sitename :: "pystr option"
  categories :: "pystr list option"
  tags :: "pystr list option"
  language :: "pystr option"

text \<open>The dictionaries the BeautifulSoup adapter builds for headings, links and images.\<close>

record heading =
  h_level :: int
  h_text :: pystr

record link =
  l_url :: pystr
  l_text :: pystr

record image =
  i_url :: pystr
  i_alt :: "pystr option"

record ExtractionResult =
  success :: bool
  text_val :: "pystr option"
  word_count :: int
  metadata :: "ExtractedMetadata option"
  method_val :: "pystr option"
  error :: "pystr option"
  title_extracted :: "pystr option"
  headings :: "heading list option"
  links :: "link list option"
  images :: "image list option"

text \<open>
  \<open>ExtractionResult(success=b)\<close>: the dataclass defaults. The adapters pass the other
  fields as keyword arguments, written here as record updates of the defaults.
\<close>

definition ExtractionResult_init :: "bool \<Rightarrow> ExtractionResult" where
  "ExtractionResult_init b =
     \<lparr>success = b, text_val = None, word_count = 0, metadata = None, method_val = None,
      error = None, title_extracted = None, headings = None, links = None, images = None\<rparr>"

text \<open>\<open>ExtractionResult(success=False, error=msg)\<close>\<close>

definition failure :: "pystr \<Rightarrow> ExtractionResult" where
  "failure msg = (ExtractionResult_init False)\<lparr>error := Some msg\<rparr>"

subsection \<open>The libraries\<close>

text \<open>
  trafilatura: \<open>extract(html, ...)\<close> returns the text or \<open>None\<close>;
  \<open>extract_metadata(html)\<close> returns a metadata document or \<open>None\<close>.
\<close>

record traf_meta =
  meta_title :: "pystr option"
  meta_author :: "pystr option"
  meta_date :: "pystr option"
  meta_description :: "pystr option"
  meta_sitename :: "pystr option"
  meta_categories :: "pystr list option"
  meta_tags :: "pystr list option"
  meta_language :: "pystr option"

record trafilatura_lib =
  traf_extract :: "pystr \<Rightarrow> pystr + pystr option"
  traf_extract_metadata :: "pystr \<Rightarrow> pystr + traf_meta option"

text \<open>
  BeautifulSoup. The names of the heading elements that
  \<open>find_all(['h1', 'h2', 'h3', 'h4', 'h5', 'h6'])\<close> can return:
\<close>

datatype hname = H1 | H2 | H3 | H4 | H5 | H6

text \<open>
  What the parsed document answers to the queries of the structural adapter, once the
  elements \<open>script, style, nav, header, footer, aside, noscript, iframe, svg\<close> have been
  decomposed. An element stands for what the adapter reads from it:
  \<^item> \<open>find_title\<close>: \<open>get_text(strip=True)\<close> of \<open>soup.find('title')\<close>, \<open>None\<close> without
    such an element;
  \<^item> \<open>find_all_h\<close>: name and \<open>get_text(strip=True)\<close> of the heading elements, in
    document order;
  \<^item> \<open>find_all_a\<close>: the \<open>href\<close> attribute and \<open>get_text(strip=True)\<close> of the
    \<open>a\<close> elements that have an \<open>href\<close>;
  \<^item> \<open>find_all_img\<close>: the \<open>src\<close> attribute and the \<open>alt\<close> attribute (if any) of the
    \<open>img\<close> elements that have a \<open>src\<close>;
  \<^item> \<open>find_body\<close>: the \<open>body\<close> element, if any;
  \<^item> \<open>soup_get_text\<close>: \<open>soup.get_text(separator=' ', strip=True)\<close>.
  For the body, \<open>find_main\<close>, \<open>find_article\<close> and \<open>find_id_content\<close> are
  \<open>get_text(separator=' ', strip=True)\<close> of \<open>body.find('main')\<close>,
  \<open>body.find('article')\<close> and \<open>body.find(id='content')\<close> (\<open>None\<close> when not found),
  and \<open>body_get_text\<close> is that of the body itself.
\<close>

record body_elem =
  find_main :: "pystr option"
  find_article :: "pystr option"
  find_id_content :: "pystr option"
  body_get_text :: pystr

record soup =
  find_title :: "pystr option"
  find_all_h :: "(hname \<times> pystr) list"
  find_all_a :: "(pystr \<times> pystr) list"
  find_all_img :: "(pystr \<times> pystr option) list"
  find_body :: "body_elem option"
  soup_get_text :: pystr

text \<open>
  \<open>bs_structure html\<close>: \<open>BeautifulSoup(html, 'lxml')\<close>, the decomposing loop and the
  queries above. \<open>bs_plain_text content\<close>:
  \<open>BeautifulSoup(content, 'lxml').get_text(separator=' ', strip=True)\<close>.
\<close>

record bs4_lib =
  bs_structure :: "pystr \<Rightarrow> pystr + soup"
  bs_plain_text :: "pystr \<Rightarrow> pystr + pystr"

text \<open>readability: \<open>Document(html).summary()\<close> and \<open>Document(html).title()\<close>.\<close>

record readability_lib =
  doc_summary :: "pystr \<Rightarrow> pystr + pystr"
  doc_title :: "pystr \<Rightarrow> pystr + pystr"

text \<open>What the three lazy loaders return in the running process, when they return.\<close>

record libs =
  get_trafilatura :: "trafilatura_lib option"
  get_beautifulsoup :: "bs4_lib option"
  get_readability :: "readability_lib option"

subsection \<open>extract\_with\_trafilatura\<close>

definition metadata_of :: "traf_meta \<Rightarrow> ExtractedMetadata" where
  "metadata_of meta =
     \<lparr>title = meta_title meta, author = meta_author meta, date = meta_date meta,
      description = meta_description meta, sitename = meta_sitename meta,
      categories = (case meta_categories meta of None \<Rightarrow> None
                    | Some cs \<Rightarrow> if cs = [] then None else Some cs),
      tags = (case meta_tags meta of None \<Rightarrow> None
              | Some ts \<Rightarrow> if ts = [] then None else Some ts),
      language = meta_language meta\<rparr>"

text \<open>The body of the \<open>try\<close>: \<open>Inl msg\<close> when a library call raises.\<close>

definition trafilatura_try :: "trafilatura_lib \<Rightarrow> pystr \<Rightarrow> pystr + ExtractionResult" where
  "trafilatura_try lib html =
     (case traf_extract lib html of
        Inl e \<Rightarrow> Inl e
      | Inr None \<Rightarrow> Inr (failure (lit ''trafilatura returned empty''))
      | Inr (Some text) \<Rightarrow>
          if text = [] then Inr (failure (lit ''trafilatura returned empty''))
          else
            (case traf_extract_metadata lib html of
               Inl e \<Rightarrow> Inl e
             | Inr meta \<Rightarrow>
                 let metadata' = (case meta of None \<Rightarrow> None | Some m \<Rightarrow> Some (metadata_of m));
                     words = py_split text
                 in Inr ((ExtractionResult_init True)
                      \<lparr>text_val := Some text,
                       word_count := int (length words),
                       metadata := metadata',
                       method_val := Some (lit ''trafilatura''),
                       title_extracted := (case meta of None \<Rightarrow> None | Some m \<Rightarrow> meta_title m)\<rparr>)))"

definition extract_with_trafilatura :: "libs \<Rightarrow> pystr \<Rightarrow> ExtractionResult" where
  "extract_with_trafilatura env html =
     (case get_trafilatura env of
        None \<Rightarrow> failure (lit ''trafilatura not installed'')
      | Some lib \<Rightarrow>
          (case trafilatura_try lib html of
             Inr r \<Rightarrow> r
           | Inl e \<Rightarrow> failure (lit ''trafilatura error: '' @ e)))"

subsection \<open>extract\_with\_beautifulsoup\<close>

text \<open>\<open>int(h.name[1])\<close> for the six heading names.\<close>

fun level_of :: "hname \<Rightarrow> int" where
  "level_of H1 = 1"
| "level_of H2 = 2"
| "level_of H3 = 3"
| "level_of H4 = 4"
| "level_of H5 = 5"
| "level_of H6 = 6"

definition heading_of :: "hname \<times> pystr \<Rightarrow> heading" where
  "heading_of h = \<lparr>h_level = level_of (fst h), h_text = take 200 (snd h)\<rparr>"

definition keep_href :: "pystr \<Rightarrow> bool" where
  "keep_href href \<longleftrightarrow>
     href \<noteq> [] \<and> \<not> startswith href (lit ''#'') \<and> \<not> startswith href (lit ''javascript:'')"

definition link_of :: "pystr \<times> pystr \<Rightarrow> link" where
  "link_of a = \<lparr>l_url = fst a, l_text = take 200 (snd a)\<rparr>"

definition image_of :: "pystr \<times> pystr option \<Rightarrow> image" where
  "image_of img =
     \<lparr>i_url = fst img,
      i_alt = (case snd img of None \<Rightarrow> None
               | Some alt \<Rightarrow> if alt = [] then None else Some (take 200 alt))\<rparr>"

text \<open>\<open>body.find('main') or body.find('article') or body.find(id='content')\<close>\<close>

definition main_of :: "body_elem \<Rightarrow> pystr option" where
  "main_of body =
     (case find_main body of Some t \<Rightarrow> Some t
      | None \<Rightarrow> (case find_article body of Some t \<Rightarrow> Some t | None \<Rightarrow> find_id_content body))"

definition beautifulsoup_try :: "bs4_lib \<Rightarrow> pystr \<Rightarrow> pystr + ExtractionResult" where
  "beautifulsoup_try lib html =
     (case bs_structure lib html of
        Inl e \<Rightarrow> Inl e
      | Inr sp \<Rightarrow>
          let title' = find_title sp;
              headings' = map heading_of (find_all_h sp);
              links' = map link_of (filter (\<lambda>a. keep_href (fst a)) (find_all_a sp));
              images' = map image_of (find_all_img sp);
              text = (case find_body sp of
                        Some body \<Rightarrow>
                          (case main_of body of Some t \<Rightarrow> t | None \<Rightarrow> body_get_text body)
                      | None \<Rightarrow> soup_get_text sp);
              text = py_strip (re_sub_ws text);
              words = py_split text
          in Inr ((ExtractionResult_init True)
               \<lparr>text_val := Some text,
                word_count := int (length words),
                method_val := Some (lit ''beautifulsoup''),
                title_extracted := title',
                headings := Some (take 50 headings'),
                links := Some (take 500 links'),
                images := Some (take 100 images')\<rparr>))"

definition extract_with_beautifulsoup :: "libs \<Rightarrow> pystr \<Rightarrow> ExtractionResult" where
  "extract_with_beautifulsoup env html =
     (case get_beautifulsoup env of
        None \<Rightarrow> failure (lit ''beautifulsoup4 not installed'')
      | Some lib \<Rightarrow>
          (case beautifulsoup_try lib html of
             Inr r \<Rightarrow> r
           | Inl e \<Rightarrow> failure (lit ''beautifulsoup error: '' @ e)))"

subsection \<open>extract\_with\_readability\<close>

definition readability_try ::
  "readability_lib \<Rightarrow> bs4_lib \<Rightarrow> pystr \<Rightarrow> pystr + ExtractionResult" where
  "readability_try doc bs html =
     (case doc_summary doc html of
        Inl e \<Rightarrow> Inl e
      | Inr content \<Rightarrow>
          (case doc_title doc html of
             Inl e \<Rightarrow> Inl e
           | Inr title' \<Rightarrow>
               (case bs_plain_text bs content of
                  Inl e \<Rightarrow> Inl e
                | Inr text \<Rightarrow>
                    let text = py_strip (re_sub_ws text);
                        words = py_split text
                    in Inr ((ExtractionResult_init True)
                         \<lparr>text_val := Some text,
                          word_count := int (length words),
                          method_val := Some (lit ''readability''),
                          title_extracted := Some title'\<rparr>))))"

definition extract_with_readability :: "libs \<Rightarrow> pystr \<Rightarrow> ExtractionResult" where
  "extract_with_readability env html =
     (case get_readability env of
        None \<Rightarrow> failure (lit ''readability-lxml not installed'')
      | Some doc \<Rightarrow>
          (case get_beautifulsoup env of
             None \<Rightarrow> failure (lit ''beautifulsoup4 not installed'')
           | Some bs \<Rightarrow>
               (case readability_try doc bs html of
                  Inr r \<Rightarrow> r
                | Inl e \<Rightarrow> failure (lit ''readability error: '' @ e))))"

subsection \<open>extract\_text\<close>

text \<open>
  The orchestrator, together with the adapters it has called, in call order (calling an
  adapter is the only effect of \<open>extract_text\<close>).
\<close>

datatype adapter = Trafilatura | Readability | BeautifulSoup

definition extract_text_calls :: "libs \<Rightarrow> pystr \<Rightarrow> adapter list \<times> ExtractionResult" where
  "extract_text_calls env html =
     (let result = extract_with_trafilatura env html in
      if success result \<and> word_count result > 50 then ([Trafilatura], result)
      else
        let result_readability = extract_with_readability env html in
        if success result_readability \<and> word_count result_readability > 50
        then ([Trafilatura, Readability], result_readability)
        else
          let result_bs = extract_with_beautifulsoup env html in
          if success result_bs then ([Trafilatura, Readability, BeautifulSoup], result_bs)
          else if success result then ([Trafilatura, Readability, BeautifulSoup], result)
          else ([Trafilatura, Readability, BeautifulSoup], result))"

definition extract_text :: "libs \<Rightarrow> pystr \<Rightarrow> ExtractionResult" where
  "extract_text env html = snd (extract_text_calls env html)"

subsection \<open>Imports that raise\<close>

text \<open>
  What \<open>import\<close> does inside a loader: it yields the module, raises \<open>ImportError\<close>
  (the loader catches it and returns \<open>None\<close>), or raises another exception, which the
  loader does not catch.
\<close>

datatype 'a import_outcome = Module 'a | ImportError | Import_raises pystr

record installation =
  import_trafilatura :: "trafilatura_lib import_outcome"
  import_beautifulsoup :: "bs4_lib import_outcome"
  import_readability :: "readability_lib import_outcome"

text \<open>What a loader returns, if it returns.\<close>

definition loaded :: "'a import_outcome \<Rightarrow> 'a option" where
  "loaded i = (case i of Module m \<Rightarrow> Some m | ImportError \<Rightarrow> None | Import_raises e \<Rightarrow> None)"

definition libs_of :: "installation \<Rightarrow> libs" where
  "libs_of imp =
     \<lparr>get_trafilatura = loaded (import_trafilatura imp),
      get_beautifulsoup = loaded (import_beautifulsoup imp),
      get_readability = loaded (import_readability imp)\<rparr>"





subsection \<open>main\<close>

text \<open>
  The values \<open>dataclasses.asdict\<close> produces, which \<open>main\<close> hands to \<open>json.dumps\<close>:
  a dictionary is the list of its items in insertion order.
\<close>

datatype pyval =
    Py_None
  | Py_bool bool
  | Py_int int
  | Py_str pystr
  | Py_list "pyval list"
  | Py_dict "(pystr \<times> pyval) list"

definition opt_str :: "pystr option \<Rightarrow> pyval" where
  "opt_str s = (case s of None \<Rightarrow> Py_None | Some t \<Rightarrow> Py_str t)"

definition opt_list :: "('a \<Rightarrow> pyval) \<Rightarrow> 'a list option \<Rightarrow> pyval" where
  "opt_list f xs = (case xs of None \<Rightarrow> Py_None | Some ys \<Rightarrow> Py_list (map f ys))"

definition asdict_metadata :: "ExtractedMetadata \<Rightarrow> pyval" where
  "asdict_metadata m =
     Py_dict [(lit ''title'', opt_str (title m)),
              (lit ''author'', opt_str (author m)),
              (lit ''date'', opt_str (date m)),
              (lit ''description'', opt_str (description m)),
              (lit ''sitename'', opt_str (sitename m)),
              (lit ''categories'', opt_list Py_str (categories m)),
              (lit ''tags'', opt_list Py_str (tags m)),
              (lit ''language'', opt_str (language m))]"

definition heading_dict :: "heading \<Rightarrow> pyval" where
  "heading_dict h = Py_dict [(lit ''level'', Py_int (h_level h)), (lit ''text'', Py_str (h_text h))]"

definition link_dict :: "link \<Rightarrow> pyval" where
  "link_dict l = Py_dict [(lit ''url'', Py_str (l_url l)), (lit ''text'', Py_str (l_text l))]"

definition image_dict :: "image \<Rightarrow> pyval" where
  "image_dict i = Py_dict [(lit ''url'', Py_str (i_url i)), (lit ''alt'', opt_str (i_alt i))]"

definition asdict :: "ExtractionResult \<Rightarrow> pyval" where
  "asdict r =
     Py_dict [(lit ''success'', Py_bool (success r)),
              (lit ''text'', opt_str (text_val r)),
              (lit ''word_count'', Py_int (word_count r)),
              (lit ''metadata'',
                 (case metadata r of None \<Rightarrow> Py_None | Some m \<Rightarrow> asdict_metadata m)),
              (lit ''method'', opt_str (method_val r)),
              (lit ''error'', opt_str (error r)),
              (lit ''title_extracted'', opt_str (title_extracted r)),
              (lit ''headings'', opt_list heading_dict (headings r)),
              (lit ''links'', opt_list link_dict (links r)),
              (lit ''images'', opt_list image_dict (images r))]"

text \<open>\<open>d[k] = v\<close> on a dictionary: an existing key keeps its place.\<close>

fun dict_set :: "(pystr \<times> pyval) list \<Rightarrow> pystr \<Rightarrow> pyval \<Rightarrow> (pystr \<times> pyval) list" where
  "dict_set [] k v = [(k, v)]"
| "dict_set ((k', v') # d) k v = (if k' = k then (k, v) # d else (k', v') # dict_set d k v)"

text \<open>\<open>str(x)\<close> of an optional string, as \<open>print\<close> and the f-string format it.\<close>

definition str_of_opt :: "pystr option \<Rightarrow> pystr" where
  "str_of_opt s = (case s of None \<Rightarrow> lit ''None'' | Some t \<Rightarrow> t)"

text \<open>
  \<open>main\<close> once the HTML has been read: the value of \<open>--output\<close>, and what the run does,
  namely print a string, print the JSON of a value, or write to stderr and exit with
  status 1.
\<close>

datatype output_choice = Output_json | Output_text | Output_all

datatype main_outcome = Print_text pystr | Print_json pyval | Exit_1 pystr

definition main_output :: "libs \<Rightarrow> output_choice \<Rightarrow> pystr \<Rightarrow> main_outcome" where
  "main_output env out html =
     (let result = extract_text env html in
      case out of
        Output_text \<Rightarrow>
          if success result then Print_text (str_of_opt (text_val result))
          else Exit_1 (lit ''Error: '' @ str_of_opt (error result))
      | Output_all \<Rightarrow>
          Print_json (Py_dict
            [(lit ''trafilatura'', asdict (extract_with_trafilatura env html)),
             (lit ''beautifulsoup'', asdict (extract_with_beautifulsoup env html)),
             (lit ''readability'', asdict (extract_with_readability env html)),
             (lit ''preferred'', asdict result)])
      | Output_json \<Rightarrow>
          (case asdict result of
             Py_dict output \<Rightarrow>
               (case metadata result of
                  Some m \<Rightarrow> Print_json (Py_dict (dict_set output (lit ''metadata'') (asdict_metadata m)))
                | None \<Rightarrow> Print_json (Py_dict output))
           | other \<Rightarrow> Print_json other))"

text \<open>\<open>results[k]\<close> of the dictionary a run prints, if it prints one with that key.\<close>

definition printed_entry :: "main_outcome \<Rightarrow> pystr \<Rightarrow> pyval option" where
  "printed_entry out k =
     (case out of Print_json (Py_dict d) \<Rightarrow> map_of d k | _ \<Rightarrow> None)"

subsection \<open>Example libraries and documents\<close>

text \<open>An empty document: no title, headings, links or images, a body without text.\<close>

definition blank_body :: body_elem where
  "blank_body = \<lparr>find_main = None, find_article = None, find_id_content = None,
                 body_get_text = []\<rparr>"

definition blank_soup :: soup where
  "blank_soup = \<lparr>find_title = None, find_all_h = [], find_all_a = [], find_all_img = [],
                 find_body = Some blank_body, soup_get_text = []\<rparr>"

definition blank_html :: pystr where
  "blank_html = lit ''<html><body></body></html>''"

text \<open>
  A document whose body holds four links, and one that has 120 headings of growing length
  and two images as well.
\<close>

definition four_links_text :: pystr where
  "four_links_text = lit ''top run About nowhere''"

definition four_links_soup :: soup where
  "four_links_soup =
     \<lparr>find_title = None, find_all_h = [],
      find_all_a = [(lit ''#'', lit ''top''), (lit ''javascript:void(0)'', lit ''run''),
                    (lit ''/about'', lit ''About''), ([], lit ''nowhere'')],
      find_all_img = [],
      find_body = Some (blank_body\<lparr>body_get_text := four_links_text\<rparr>),
      soup_get_text = four_links_text\<rparr>"

definition many_headings :: "(hname \<times> pystr) list" where
  "many_headings = map (\<lambda>i. (H2, replicate (150 + 2 * i) 120)) [0..<120]"

definition two_images :: "(pystr \<times> pystr option) list" where
  "two_images = [(lit ''a.png'', Some (replicate 300 120)), (lit ''b.png'', None)]"

definition crowded_text :: pystr where
  "crowded_text = concat (map (\<lambda>h. snd h @ lit '' '') many_headings) @ four_links_text"

definition crowded_soup :: soup where
  "crowded_soup =
     \<lparr>find_title = None, find_all_h = many_headings,
      find_all_a = find_all_a four_links_soup,
      find_all_img = two_images,
      find_body = Some (blank_body\<lparr>body_get_text := crowded_text\<rparr>),
      soup_get_text = crowded_text\<rparr>"

text \<open>Texts of 30 and of 60 words.\<close>

definition thirty_words :: pystr where
  "thirty_words = concat (replicate 30 (lit ''word ''))"

definition sixty_words :: pystr where
  "sixty_words = concat (replicate 60 (lit ''word ''))"

text \<open>
  trafilatura finding a given text and no metadata, finding nothing, and raising;
  BeautifulSoup parsing every input to a given document, and raising; readability raising.
\<close>

definition traf_finds :: "pystr \<Rightarrow> trafilatura_lib" where
  "traf_finds t = \<lparr>traf_extract = (\<lambda>html. Inr (Some t)),
                   traf_extract_metadata = (\<lambda>html. Inr None)\<rparr>"

definition traf_finds_nothing :: trafilatura_lib where
  "traf_finds_nothing = \<lparr>traf_extract = (\<lambda>html. Inr None),
                         traf_extract_metadata = (\<lambda>html. Inr None)\<rparr>"

definition traf_raises :: trafilatura_lib where
  "traf_raises = \<lparr>traf_extract = (\<lambda>html. Inl (lit ''bad markup'')),
                  traf_extract_metadata = (\<lambda>html. Inr None)\<rparr>"

definition bs_parses_to :: "soup \<Rightarrow> bs4_lib" where
  "bs_parses_to sp = \<lparr>bs_structure = (\<lambda>html. Inr sp),
                      bs_plain_text = (\<lambda>content. Inr (soup_get_text sp))\<rparr>"

definition bs_raises :: bs4_lib where
  "bs_raises = \<lparr>bs_structure = (\<lambda>html. Inl (lit ''no tree builder'')),
                bs_plain_text = (\<lambda>content. Inl (lit ''no tree builder''))\<rparr>"

definition readability_raises :: readability_lib where
  "readability_raises = \<lparr>doc_summary = (\<lambda>html. Inl (lit ''unparseable'')),
                         doc_title = (\<lambda>html. Inr (lit ''untitled''))\<rparr>"

definition no_libs :: libs where
  "no_libs = \<lparr>get_trafilatura = None, get_beautifulsoup = None, get_readability = None\<rparr>"

definition readability_echo :: readability_lib where
  "readability_echo = \<lparr>doc_summary = (\<lambda>html. Inr html),
                       doc_title = (\<lambda>html. Inr (lit ''[no-title]''))\<rparr>"

text \<open>
  All three libraries installed, on the empty document: trafilatura finds nothing,
  readability and BeautifulSoup find no text.
\<close>

definition blank_page_libs :: libs where
  "blank_page_libs = \<lparr>get_trafilatura = Some traf_finds_nothing,
                       get_beautifulsoup = Some (bs_parses_to blank_soup),
                       get_readability = Some readability_echo\<rparr>"

text \<open>trafilatura finds 30 words; readability and BeautifulSoup raise.\<close>

definition short_article_libs :: libs where
  "short_article_libs = \<lparr>get_trafilatura = Some (traf_finds thirty_words),
                          get_beautifulsoup = Some bs_raises,
                          get_readability = Some readability_raises\<rparr>"

text \<open>trafilatura finds 60 words.\<close>

definition long_article_libs :: libs where
  "long_article_libs = \<lparr>get_trafilatura = Some (traf_finds sixty_words),
                         get_beautifulsoup = Some (bs_parses_to blank_soup),
                         get_readability = Some readability_echo\<rparr>"

text \<open>All three libraries raise.\<close>

definition raising_libs :: libs where
  "raising_libs = \<lparr>get_trafilatura = Some traf_raises,
                    get_beautifulsoup = Some bs_raises,
                    get_readability = Some readability_raises\<rparr>"

text \<open>Only readability is installed.\<close>

definition readability_only_libs :: libs where
  "readability_only_libs = \<lparr>get_trafilatura = None, get_beautifulsoup = None,
                             get_readability = Some readability_echo\<rparr>"

text \<open>
  On the documents with links and headings: trafilatura finds nothing and readability
  raises.
\<close>

definition four_links_libs :: libs where
  "four_links_libs = \<lparr>get_trafilatura = Some traf_finds_nothing,
                       get_beautifulsoup = Some (bs_parses_to four_links_soup),
                       get_readability = Some readability_raises\<rparr>"

definition crowded_libs :: libs where
  "crowded_libs = \<lparr>get_trafilatura = Some traf_finds_nothing,
                    get_beautifulsoup = Some (bs_parses_to crowded_soup),
                    get_readability = Some readability_raises\<rparr>"

text \<open>
  trafilatura finds 30 words in a document whose text BeautifulSoup decomposes away
  (everything sits in a \<open>header\<close>), and readability raises.
\<close>

definition masked_partial_libs :: libs where
  "masked_partial_libs = \<lparr>get_trafilatura = Some (traf_finds thirty_words),
                           get_beautifulsoup = Some (bs_parses_to blank_soup),
                           get_readability = Some readability_raises\<rparr>"

text \<open>
  A document with two links whose URLs have the \<open>javascript\<close> scheme, one written in
  lower case and one in mixed case.
\<close>

definition js_links_text :: pystr where
  "js_links_text = lit ''one two''"

definition js_links_soup :: soup where
  "js_links_soup =
     \<lparr>find_title = None, find_all_h = [],
      find_all_a = [(lit ''javascript:alert(1)'', lit ''one''),
                    (lit ''JavaScript:alert(1)'', lit ''two'')],
      find_all_img = [],
      find_body = Some (blank_body\<lparr>body_get_text := js_links_text\<rparr>),
      soup_get_text = js_links_text\<rparr>"

definition js_links_html :: pystr where
  "js_links_html =
     lit ''<html><body><a href=javascript:alert(1)>one</a> <a href=JavaScript:alert(1)>two</a></body></html>''"

definition js_links_libs :: libs where
  "js_links_libs = \<lparr>get_trafilatura = Some traf_finds_nothing,
                     get_beautifulsoup = Some (bs_parses_to js_links_soup),
                     get_readability = Some readability_raises\<rparr>"




section \<open>Properties\<close>

subsection \<open>Basic facts\<close>

lemma failure_sel [simp]:
  "success (failure m) = False" "text_val (failure m) = None" "word_count (failure m) = 0"
  "metadata (failure m) = None" "method_val (failure m) = None" "error (failure m) = Some m"
  "title_extracted (failure m) = None" "headings (failure m) = None"
  "links (failure m) = None" "images (failure m) = None"
  by (simp_all add: failure_def ExtractionResult_init_def)

lemma failure_inject [simp]: "failure a = failure b \<longleftrightarrow> a = b"
  by (auto simp: failure_def ExtractionResult_init_def)

lemma lit_append: "lit (a @ b) = lit a @ lit b"
  by (simp add: lit_def)

lemma startswith_append [simp]: "startswith (p @ s) p"
  by (simp add: startswith_def)

lemma startswith_self [simp]: "startswith p p"
  by (simp add: startswith_def)

lemma py_split_Nil [simp]: "py_split [] = []"
  by (simp add: py_split_def)

subsection \<open>Shape of the adapters' results\<close>

lemma trafilatura_try_shape:
  assumes "trafilatura_try lib html = Inr r"
  shows "r = failure (lit ''trafilatura returned empty'') \<or>
         (\<exists>t md ti. t \<noteq> [] \<and>
            r = (ExtractionResult_init True)
                  \<lparr>text_val := Some t, word_count := int (length (py_split t)),
                   metadata := md, method_val := Some (lit ''trafilatura''),
                   title_extracted := ti\<rparr>)"
  using assms
  by (auto simp: trafilatura_try_def Let_def split: sum.splits option.splits if_splits)

lemma beautifulsoup_try_shape:
  assumes "beautifulsoup_try lib html = Inr r"
  shows "\<exists>sp t ti. bs_structure lib html = Inr sp \<and>
            r = (ExtractionResult_init True)
                  \<lparr>text_val := Some t, word_count := int (length (py_split t)),
                   method_val := Some (lit ''beautifulsoup''),
                   title_extracted := ti,
                   headings := Some (take 50 (map heading_of (find_all_h sp))),
                   links := Some (take 500 (map link_of (filter (\<lambda>a. keep_href (fst a)) (find_all_a sp)))),
                   images := Some (take 100 (map image_of (find_all_img sp)))\<rparr>"
  using assms
  by (auto simp: beautifulsoup_try_def Let_def split: sum.splits)

lemma readability_try_shape:
  assumes "readability_try doc bs html = Inr r"
  shows "\<exists>t ti.
            r = (ExtractionResult_init True)
                  \<lparr>text_val := Some t, word_count := int (length (py_split t)),
                   method_val := Some (lit ''readability''),
                   title_extracted := ti\<rparr>"
  using assms
  by (auto simp: readability_try_def Let_def split: sum.splits)


lemma lit_trafilatura_error: "lit ''trafilatura error: '' = lit ''trafilatura'' @ lit '' error: ''"
  by (simp add: lit_append [symmetric])

lemma lit_trafilatura_not_installed:
  "lit ''trafilatura not installed'' = lit ''trafilatura'' @ lit '' not installed''"
  by (simp add: lit_append [symmetric])

lemma lit_trafilatura_empty:
  "lit ''trafilatura returned empty'' = lit ''trafilatura'' @ lit '' returned empty''"
  by (simp add: lit_append [symmetric])

lemma lit_beautifulsoup_error: "lit ''beautifulsoup error: '' = lit ''beautifulsoup'' @ lit '' error: ''"
  by (simp add: lit_append [symmetric])

lemma lit_beautifulsoup_not_installed:
  "lit ''beautifulsoup4 not installed'' = lit ''beautifulsoup'' @ lit ''4 not installed''"
  by (simp add: lit_append [symmetric])

lemma lit_readability_error: "lit ''readability error: '' = lit ''readability'' @ lit '' error: ''"
  by (simp add: lit_append [symmetric])

lemma lit_readability_not_installed:
  "lit ''readability-lxml not installed'' = lit ''readability'' @ lit ''-lxml not installed''"
  by (simp add: lit_append [symmetric])

lemma extract_with_trafilatura_cases:
  "(\<exists>e. extract_with_trafilatura env html = failure e \<and> startswith e (lit ''trafilatura'')) \<or>
   (\<exists>t md ti. t \<noteq> [] \<and>
      extract_with_trafilatura env html =
        (ExtractionResult_init True)
          \<lparr>text_val := Some t, word_count := int (length (py_split t)),
           metadata := md, method_val := Some (lit ''trafilatura''), title_extracted := ti\<rparr>)"
proof (cases "get_trafilatura env")
  case None
  then have "extract_with_trafilatura env html = failure (lit ''trafilatura not installed'')"
    by (simp add: extract_with_trafilatura_def)
  then show ?thesis
    by (metis lit_trafilatura_not_installed startswith_append)
next
  case (Some lib)
  show ?thesis
  proof (cases "trafilatura_try lib html")
    case (Inl e)
    with Some have "extract_with_trafilatura env html = failure (lit ''trafilatura error: '' @ e)"
      by (simp add: extract_with_trafilatura_def)
    moreover have "startswith (lit ''trafilatura error: '' @ e) (lit ''trafilatura'')"
      by (simp add: lit_trafilatura_error)
    ultimately show ?thesis by blast
  next
    case (Inr r)
    with Some have eq: "extract_with_trafilatura env html = r"
      by (simp add: extract_with_trafilatura_def)
    from trafilatura_try_shape [OF Inr] show ?thesis
    proof
      assume "r = failure (lit ''trafilatura returned empty'')"
      with eq show ?thesis
        by (metis lit_trafilatura_empty startswith_append)
    next
      assume "\<exists>t md ti. t \<noteq> [] \<and>
            r = (ExtractionResult_init True)
                  \<lparr>text_val := Some t, word_count := int (length (py_split t)),
                   metadata := md, method_val := Some (lit ''trafilatura''),
                   title_extracted := ti\<rparr>"
      with eq show ?thesis by simp
    qed
  qed
qed


lemma extract_with_beautifulsoup_cases:
  "(\<exists>e. extract_with_beautifulsoup env html = failure e \<and> startswith e (lit ''beautifulsoup'')) \<or>
   (\<exists>lib sp t ti. get_beautifulsoup env = Some lib \<and> bs_structure lib html = Inr sp \<and>
      extract_with_beautifulsoup env html =
        (ExtractionResult_init True)
          \<lparr>text_val := Some t, word_count := int (length (py_split t)),
           method_val := Some (lit ''beautifulsoup''), title_extracted := ti,
           headings := Some (take 50 (map heading_of (find_all_h sp))),
           links := Some (take 500 (map link_of (filter (\<lambda>a. keep_href (fst a)) (find_all_a sp)))),
           images := Some (take 100 (map image_of (find_all_img sp)))\<rparr>)"
proof (cases "get_beautifulsoup env")
  case None
  then have "extract_with_beautifulsoup env html = failure (lit ''beautifulsoup4 not installed'')"
    by (simp add: extract_with_beautifulsoup_def)
  then show ?thesis
    by (metis lit_beautifulsoup_not_installed startswith_append)
next
  case (Some lib)
  show ?thesis
  proof (cases "beautifulsoup_try lib html")
    case (Inl e)
    with Some have "extract_with_beautifulsoup env html = failure (lit ''beautifulsoup error: '' @ e)"
      by (simp add: extract_with_beautifulsoup_def)
    moreover have "startswith (lit ''beautifulsoup error: '' @ e) (lit ''beautifulsoup'')"
      by (simp add: lit_beautifulsoup_error)
    ultimately show ?thesis by blast
  next
    case (Inr r)
    with Some have eq: "extract_with_beautifulsoup env html = r"
      by (simp add: extract_with_beautifulsoup_def)
    from beautifulsoup_try_shape [OF Inr] Some eq show ?thesis
      by blast
  qed
qed

lemma extract_with_readability_cases:
  "(\<exists>e. extract_with_readability env html = failure e \<and>
        (startswith e (lit ''readability'') \<or> startswith e (lit ''beautifulsoup''))) \<or>
   (\<exists>t ti. extract_with_readability env html =
        (ExtractionResult_init True)
          \<lparr>text_val := Some t, word_count := int (length (py_split t)),
           method_val := Some (lit ''readability''), title_extracted := ti\<rparr>)"
proof (cases "get_readability env")
  case None
  then have "extract_with_readability env html = failure (lit ''readability-lxml not installed'')"
    by (simp add: extract_with_readability_def)
  then show ?thesis
    by (metis lit_readability_not_installed startswith_append)
next
  case doc: (Some doc)
  show ?thesis
  proof (cases "get_beautifulsoup env")
    case None
    with doc have "extract_with_readability env html = failure (lit ''beautifulsoup4 not installed'')"
      by (simp add: extract_with_readability_def)
    then show ?thesis
      by (metis lit_beautifulsoup_not_installed startswith_append)
  next
    case bs: (Some bs)
    show ?thesis
    proof (cases "readability_try doc bs html")
      case (Inl e)
      with doc bs have "extract_with_readability env html = failure (lit ''readability error: '' @ e)"
        by (simp add: extract_with_readability_def)
      moreover have "startswith (lit ''readability error: '' @ e) (lit ''readability'')"
        by (simp add: lit_readability_error)
      ultimately show ?thesis by blast
    next
      case (Inr r)
      with doc bs have eq: "extract_with_readability env html = r"
        by (simp add: extract_with_readability_def)
      from readability_try_shape [OF Inr] eq show ?thesis
        by blast
    qed
  qed
qed

lemma extract_text_unfold:
  "extract_text env html =
     (if success (extract_with_trafilatura env html) \<and> 50 < word_count (extract_with_trafilatura env html)
      then extract_with_trafilatura env html
      else if success (extract_with_readability env html) \<and> 50 < word_count (extract_with_readability env html)
      then extract_with_readability env html
      else if success (extract_with_beautifulsoup env html)
      then extract_with_beautifulsoup env html
      else extract_with_trafilatura env html)"
  by (simp add: extract_text_def extract_text_calls_def Let_def)

lemma extract_text_cases:
  "extract_text env html = extract_with_trafilatura env html \<or>
   (extract_text env html = extract_with_readability env html \<and>
      success (extract_with_readability env html) \<and>
      50 < word_count (extract_with_readability env html)) \<or>
   (extract_text env html = extract_with_beautifulsoup env html \<and>
      success (extract_with_beautifulsoup env html))"
  by (simp add: extract_text_unfold)

text \<open>A property that the three adapters' results have is a property of the chosen result.\<close>

lemma extract_text_lift:
  assumes "P (extract_with_trafilatura env html)"
    and "P (extract_with_readability env html)"
    and "P (extract_with_beautifulsoup env html)"
  shows "P (extract_text env html)"
  using assms extract_text_cases [of env html] by auto

lemma method_iff_success_trafilatura:
  "method_val (extract_with_trafilatura env html) \<noteq> None \<longleftrightarrow> success (extract_with_trafilatura env html)"
  using extract_with_trafilatura_cases [of env html]
  by (auto simp: ExtractionResult_init_def)

lemma method_iff_success_readability:
  "method_val (extract_with_readability env html) \<noteq> None \<longleftrightarrow> success (extract_with_readability env html)"
  using extract_with_readability_cases [of env html]
  by (auto simp: ExtractionResult_init_def)

lemma method_iff_success_beautifulsoup:
  "method_val (extract_with_beautifulsoup env html) \<noteq> None \<longleftrightarrow> success (extract_with_beautifulsoup env html)"
  using extract_with_beautifulsoup_cases [of env html]
  by (auto simp: ExtractionResult_init_def)

subsection \<open>The example libraries\<close>

lemma py_split_word:
  "py_split_from [] (lit ''word '' @ rest) = lit ''word'' # py_split_from [] rest"
  by (simp add: lit_def py_isspace_def)

lemma py_split_words:
  "py_split (concat (replicate n (lit ''word ''))) = replicate n (lit ''word'')"
  by (induction n) (simp_all add: py_split_def py_split_word)

lemma word_not_Nil: "lit ''word '' \<noteq> []"
  by (simp add: lit_def)

lemma thirty_words_not_Nil: "thirty_words \<noteq> []"
  by (simp add: thirty_words_def word_not_Nil)

lemma thirty_words_count: "length (py_split thirty_words) = 30"
  by (simp add: thirty_words_def py_split_words)

lemma sixty_words_not_Nil: "sixty_words \<noteq> []"
  by (simp add: sixty_words_def word_not_Nil)

lemma sixty_words_count: "length (py_split sixty_words) = 60"
  by (simp add: sixty_words_def py_split_words)

lemma lit_not_installed_neq:
  "lit ''readability-lxml not installed'' \<noteq> lit ''beautifulsoup4 not installed''"
  by (simp add: lit_def)

lemma trafilatura_short_article:
  "extract_with_trafilatura short_article_libs html =
     (ExtractionResult_init True)
       \<lparr>text_val := Some thirty_words, word_count := 30, metadata := None,
        method_val := Some (lit ''trafilatura''), title_extracted := None\<rparr>"
  by (simp add: extract_with_trafilatura_def short_article_libs_def trafilatura_try_def
      traf_finds_def thirty_words_not_Nil thirty_words_count)

lemma readability_short_article:
  "extract_with_readability short_article_libs html =
     failure (lit ''readability error: unparseable'')"
  by (simp add: extract_with_readability_def short_article_libs_def readability_try_def
      readability_raises_def lit_append [symmetric])

lemma beautifulsoup_short_article:
  "extract_with_beautifulsoup short_article_libs html =
     failure (lit ''beautifulsoup error: no tree builder'')"
  by (simp add: extract_with_beautifulsoup_def short_article_libs_def beautifulsoup_try_def
      bs_raises_def lit_append [symmetric])

lemma extract_text_short_article:
  "extract_text short_article_libs html =
     (ExtractionResult_init True)
       \<lparr>text_val := Some thirty_words, word_count := 30, metadata := None,
        method_val := Some (lit ''trafilatura''), title_extracted := None\<rparr>"
  by (simp add: extract_text_unfold trafilatura_short_article readability_short_article
      beautifulsoup_short_article ExtractionResult_init_def)

lemma trafilatura_long_article:
  "extract_with_trafilatura long_article_libs html =
     (ExtractionResult_init True)
       \<lparr>text_val := Some sixty_words, word_count := 60, metadata := None,
        method_val := Some (lit ''trafilatura''), title_extracted := None\<rparr>"
  by (simp add: extract_with_trafilatura_def long_article_libs_def trafilatura_try_def
      traf_finds_def sixty_words_not_Nil sixty_words_count)

lemma trafilatura_raising:
  "extract_with_trafilatura raising_libs html = failure (lit ''trafilatura error: bad markup'')"
  by (simp add: extract_with_trafilatura_def raising_libs_def trafilatura_try_def
      traf_raises_def lit_append [symmetric])

lemma readability_raising:
  "extract_with_readability raising_libs html = failure (lit ''readability error: unparseable'')"
  by (simp add: extract_with_readability_def raising_libs_def readability_try_def
      readability_raises_def lit_append [symmetric])

lemma beautifulsoup_raising:
  "extract_with_beautifulsoup raising_libs html =
     failure (lit ''beautifulsoup error: no tree builder'')"
  by (simp add: extract_with_beautifulsoup_def raising_libs_def beautifulsoup_try_def
      bs_raises_def lit_append [symmetric])

lemma extract_text_raising:
  "extract_text raising_libs html = failure (lit ''trafilatura error: bad markup'')"
  by (simp add: extract_text_unfold trafilatura_raising readability_raising
      beautifulsoup_raising)

lemma trafilatura_blank_page:
  "extract_with_trafilatura blank_page_libs html = failure (lit ''trafilatura returned empty'')"
  by (simp add: extract_with_trafilatura_def blank_page_libs_def trafilatura_try_def
      traf_finds_nothing_def)

lemma readability_blank_page:
  "extract_with_readability blank_page_libs html =
     (ExtractionResult_init True)
       \<lparr>text_val := Some [], word_count := 0, method_val := Some (lit ''readability''),
        title_extracted := Some (lit ''[no-title]'')\<rparr>"
  by (simp add: extract_with_readability_def blank_page_libs_def readability_try_def
      readability_echo_def bs_parses_to_def blank_soup_def re_sub_ws_def py_strip_def)

lemma beautifulsoup_blank_page:
  "extract_with_beautifulsoup blank_page_libs html =
     (ExtractionResult_init True)
       \<lparr>text_val := Some [], word_count := 0, method_val := Some (lit ''beautifulsoup''),
        title_extracted := None, headings := Some [], links := Some [], images := Some []\<rparr>"
  by (simp add: extract_with_beautifulsoup_def blank_page_libs_def beautifulsoup_try_def
      bs_parses_to_def blank_soup_def blank_body_def main_of_def re_sub_ws_def py_strip_def)

lemma extract_text_blank_page:
  "extract_text blank_page_libs html =
     (ExtractionResult_init True)
       \<lparr>text_val := Some [], word_count := 0, method_val := Some (lit ''beautifulsoup''),
        title_extracted := None, headings := Some [], links := Some [], images := Some []\<rparr>"
  by (simp add: extract_text_unfold trafilatura_blank_page readability_blank_page
      beautifulsoup_blank_page ExtractionResult_init_def)

subsection \<open>Claims on the chosen result\<close>

text \<open>
  C4. For every HTML input (and whatever the libraries answer), the result of
  \<open>extract_text\<close> has \<open>method_val\<close> set if and only if \<open>success\<close> is true.
\<close>

theorem method_set_iff_success:
  "(method_val (extract_text env html) \<noteq> None) = success (extract_text env html)"
  by (rule extract_text_lift [where P = "\<lambda>r. (method_val r \<noteq> None) = success r"])
     (rule method_iff_success_trafilatura method_iff_success_readability
        method_iff_success_beautifulsoup)+


text \<open>
  C8. For every result of \<open>extract_text\<close>, \<open>word_count\<close> is the number of elements of
  the whitespace split of the text when a text is present, and 0 when it is absent.
\<close>

theorem word_count_consistent:
  "word_count (extract_text env html) =
     (case text_val (extract_text env html) of
        None \<Rightarrow> 0
      | Some t \<Rightarrow> int (length (py_split t)))"
proof (rule extract_text_lift
    [where P = "\<lambda>r. word_count r = (case text_val r of None \<Rightarrow> 0 | Some t \<Rightarrow> int (length (py_split t)))"])
  show "word_count (extract_with_trafilatura env html) =
     (case text_val (extract_with_trafilatura env html) of
        None \<Rightarrow> 0 | Some t \<Rightarrow> int (length (py_split t)))"
    using extract_with_trafilatura_cases [of env html]
    by (auto simp: ExtractionResult_init_def)
  show "word_count (extract_with_readability env html) =
     (case text_val (extract_with_readability env html) of
        None \<Rightarrow> 0 | Some t \<Rightarrow> int (length (py_split t)))"
    using extract_with_readability_cases [of env html]
    by (auto simp: ExtractionResult_init_def)
  show "word_count (extract_with_beautifulsoup env html) =
     (case text_val (extract_with_beautifulsoup env html) of
        None \<Rightarrow> 0 | Some t \<Rightarrow> int (length (py_split t)))"
    using extract_with_beautifulsoup_cases [of env html]
    by (auto simp: ExtractionResult_init_def)
qed

lemma trafilatura_masked_partial:
  "extract_with_trafilatura masked_partial_libs html =
     (ExtractionResult_init True)
       \<lparr>text_val := Some thirty_words, word_count := 30, metadata := None,
        method_val := Some (lit ''trafilatura''), title_extracted := None\<rparr>"
  by (simp add: extract_with_trafilatura_def masked_partial_libs_def trafilatura_try_def
      traf_finds_def thirty_words_not_Nil thirty_words_count)

lemma readability_masked_partial:
  "extract_with_readability masked_partial_libs html =
     failure (lit ''readability error: unparseable'')"
  by (simp add: extract_with_readability_def masked_partial_libs_def readability_try_def
      readability_raises_def lit_append [symmetric])

lemma beautifulsoup_masked_partial:
  "extract_with_beautifulsoup masked_partial_libs html =
     (ExtractionResult_init True)
       \<lparr>text_val := Some [], word_count := 0, method_val := Some (lit ''beautifulsoup''),
        title_extracted := None, headings := Some [], links := Some [], images := Some []\<rparr>"
  by (simp add: extract_with_beautifulsoup_def masked_partial_libs_def beautifulsoup_try_def
      bs_parses_to_def blank_soup_def blank_body_def main_of_def re_sub_ws_def py_strip_def)

lemma extract_text_masked_partial:
  "extract_text masked_partial_libs html = extract_with_beautifulsoup masked_partial_libs html"
  by (simp add: extract_text_unfold trafilatura_masked_partial readability_masked_partial
      beautifulsoup_masked_partial ExtractionResult_init_def)

text \<open>
  C3. Every result has exactly one of \<open>success\<close> true with a text that is present and
  non-empty, or \<open>success\<close> false with an error. The trafilatura adapter keeps to this
  (an empty text is its failure \<open>trafilatura returned empty\<close>); the BeautifulSoup
  adapter does not, and \<open>extract_text\<close> returns what it gives. On the empty document the
  result has \<open>success\<close> true and the empty text; and when trafilatura has found 30
  words and BeautifulSoup no text at all, the result is again the empty success, not the
  partial result of trafilatura that the last step of \<open>extract_text\<close> is there for.
\<close>

theorem success_with_empty_text:
  "success (extract_text blank_page_libs blank_html) \<and>
   text_val (extract_text blank_page_libs blank_html) = Some [] \<and>
   error (extract_text blank_page_libs blank_html) = None \<and>
   extract_with_trafilatura blank_page_libs blank_html =
     \<lparr>success = False, text_val = None, word_count = 0, metadata = None, method_val = None,
      error = Some (lit ''trafilatura returned empty''), title_extracted = None,
      headings = None, links = None, images = None\<rparr> \<and>
   success (extract_with_trafilatura masked_partial_libs blank_html) \<and>
   text_val (extract_with_trafilatura masked_partial_libs blank_html) = Some thirty_words \<and>
   success (extract_text masked_partial_libs blank_html) \<and>
   text_val (extract_text masked_partial_libs blank_html) = Some []"
  by (simp add: extract_text_blank_page trafilatura_blank_page extract_text_masked_partial
      trafilatura_masked_partial beautifulsoup_masked_partial ExtractionResult_init_def
      failure_def)

subsection \<open>The fallback order\<close>

text \<open>
  C1. For every HTML input \<open>extract_text\<close> follows the five steps: the trafilatura
  result if it succeeded with more than 50 words; otherwise the readability result if it
  succeeded with more than 50 words; otherwise the BeautifulSoup result if it succeeded
  (no word-count gate); otherwise the trafilatura result if it succeeded; otherwise the
  trafilatura result, a failure, so that a final error is the error of trafilatura. Each
  adapter is called at most once, in priority order, and only while no earlier result has
  been accepted.
\<close>

theorem extract_text_five_steps:
  "(let primary = extract_with_trafilatura env html;
        secondary = extract_with_readability env html;
        structural = extract_with_beautifulsoup env html
    in extract_text env html =
         (if success primary \<and> 50 < word_count primary then primary
          else if success secondary \<and> 50 < word_count secondary then secondary
          else if success structural then structural
          else if success primary then primary
          else primary) \<and>
       fst (extract_text_calls env html) =
         (if success primary \<and> 50 < word_count primary then [Trafilatura]
          else if success secondary \<and> 50 < word_count secondary
          then [Trafilatura, Readability]
          else [Trafilatura, Readability, BeautifulSoup]) \<and>
       distinct (fst (extract_text_calls env html)) \<and>
       (\<not> success (extract_text env html) \<longrightarrow>
          \<not> success primary \<and> extract_text env html = primary \<and>
          error (extract_text env html) = error primary))"
  by (simp add: extract_text_def extract_text_calls_def Let_def)

theorem extract_text_five_steps_witness:
  "extract_text long_article_libs blank_html =
     extract_with_trafilatura long_article_libs blank_html \<and>
   fst (extract_text_calls long_article_libs blank_html) = [Trafilatura] \<and>
   extract_text short_article_libs blank_html =
     extract_with_trafilatura short_article_libs blank_html \<and>
   fst (extract_text_calls short_article_libs blank_html) =
     [Trafilatura, Readability, BeautifulSoup] \<and>
   \<not> success (extract_text raising_libs blank_html) \<and>
   error (extract_text raising_libs blank_html) = Some (lit ''trafilatura error: bad markup'') \<and>
   error (extract_text raising_libs blank_html) =
     error (extract_with_trafilatura raising_libs blank_html)"
proof -
  have p: "success (extract_with_trafilatura short_article_libs blank_html)"
    "\<not> 50 < word_count (extract_with_trafilatura short_article_libs blank_html)"
    by (simp_all add: trafilatura_short_article ExtractionResult_init_def)
  have s: "\<not> success (extract_with_readability short_article_libs blank_html)"
    by (simp add: readability_short_article)
  have b: "\<not> success (extract_with_beautifulsoup short_article_libs blank_html)"
    by (simp add: beautifulsoup_short_article)
  have ko: "\<not> success (extract_text raising_libs blank_html)"
    by (simp add: extract_text_raising)
  have long: "success (extract_with_trafilatura long_article_libs blank_html) \<and>
      50 < word_count (extract_with_trafilatura long_article_libs blank_html)"
    by (simp add: trafilatura_long_article ExtractionResult_init_def)
  from extract_text_five_steps [of long_article_libs blank_html] long
  have "extract_text long_article_libs blank_html =
      extract_with_trafilatura long_article_libs blank_html"
    and "fst (extract_text_calls long_article_libs blank_html) = [Trafilatura]"
    by (simp_all add: Let_def)
  moreover
  from extract_text_five_steps [of short_article_libs blank_html] p s b
  have "extract_text short_article_libs blank_html =
      extract_with_trafilatura short_article_libs blank_html"
    and "fst (extract_text_calls short_article_libs blank_html) =
      [Trafilatura, Readability, BeautifulSoup]"
    by (simp_all add: Let_def)
  moreover
  from extract_text_five_steps [of raising_libs blank_html, unfolded Let_def] ko
  have "error (extract_text raising_libs blank_html) =
      error (extract_with_trafilatura raising_libs blank_html)"
    by blast
  moreover have "error (extract_text raising_libs blank_html) =
      Some (lit ''trafilatura error: bad markup'')"
    by (simp add: extract_text_raising)
  ultimately show ?thesis using ko by blast
qed

text \<open>
  C2, as the claim states it, fails: when trafilatura succeeds with 30 words and the other
  two adapters fail, the result that \<open>extract_text\<close> returns has \<open>method_val\<close> set, as
  the trafilatura adapter has set it.
\<close>

theorem partial_success_method_counterexample:
  "success (extract_with_trafilatura short_article_libs blank_html) \<and>
   word_count (extract_with_trafilatura short_article_libs blank_html) = 30 \<and>
   \<not> success (extract_with_readability short_article_libs blank_html) \<and>
   \<not> success (extract_with_beautifulsoup short_article_libs blank_html) \<and>
   method_val (extract_text short_article_libs blank_html) \<noteq> None"
  by (simp add: trafilatura_short_article readability_short_article
      beautifulsoup_short_article extract_text_short_article ExtractionResult_init_def)

lemma success_method_trafilatura:
  assumes "success (extract_with_trafilatura env html)"
  shows "method_val (extract_with_trafilatura env html) = Some (lit ''trafilatura'')"
  using extract_with_trafilatura_cases [of env html] assms
  by (auto simp: ExtractionResult_init_def)

text \<open>
  C2, amended. If the trafilatura adapter succeeds with a word count of 30 and the
  readability and BeautifulSoup adapters both fail, then the result of \<open>extract_text\<close>
  is the trafilatura result, with \<open>success\<close> true, \<open>word_count\<close> 30 and \<open>method_val\<close>
  set to \<open>trafilatura\<close>.
\<close>

theorem partial_success_keeps_method:
  assumes "success (extract_with_trafilatura env html)"
    and "word_count (extract_with_trafilatura env html) = 30"
    and "\<not> success (extract_with_readability env html)"
    and "\<not> success (extract_with_beautifulsoup env html)"
  shows "extract_text env html = extract_with_trafilatura env html \<and>
    success (extract_text env html) \<and>
    word_count (extract_text env html) = 30 \<and>
    method_val (extract_text env html) = Some (lit ''trafilatura'')"
proof -
  from assms have "extract_text env html = extract_with_trafilatura env html"
    by (simp add: extract_text_unfold)
  with assms success_method_trafilatura [of env html] show ?thesis
    by simp
qed

theorem partial_success_keeps_method_witness:
  "success (extract_with_trafilatura short_article_libs blank_html) \<and>
   word_count (extract_with_trafilatura short_article_libs blank_html) = 30 \<and>
   \<not> success (extract_with_readability short_article_libs blank_html) \<and>
   \<not> success (extract_with_beautifulsoup short_article_libs blank_html) \<and>
   success (extract_text short_article_libs blank_html) \<and>
   word_count (extract_text short_article_libs blank_html) = 30 \<and>
   method_val (extract_text short_article_libs blank_html) = Some (lit ''trafilatura'')"
proof -
  have p: "success (extract_with_trafilatura short_article_libs blank_html)"
    and n: "word_count (extract_with_trafilatura short_article_libs blank_html) = 30"
    by (simp_all add: trafilatura_short_article ExtractionResult_init_def)
  have s: "\<not> success (extract_with_readability short_article_libs blank_html)"
    by (simp add: readability_short_article)
  have b: "\<not> success (extract_with_beautifulsoup short_article_libs blank_html)"
    by (simp add: beautifulsoup_short_article)
  from partial_success_keeps_method [OF p n s b] p n s b show ?thesis
    by blast
qed

subsection \<open>The readability adapter without BeautifulSoup\<close>

text \<open>
  C10, as the claim states it, fails: with neither readability nor BeautifulSoup
  installed, the error of the readability adapter names readability, which is looked for
  first.
\<close>

theorem readability_without_bs_counterexample:
  "get_beautifulsoup no_libs = None \<and>
   error (extract_with_readability no_libs blank_html) =
     Some (lit ''readability-lxml not installed'') \<and>
   error (extract_with_readability no_libs blank_html) \<noteq>
     Some (lit ''beautifulsoup4 not installed'')"
  by (simp add: extract_with_readability_def no_libs_def lit_not_installed_neq)

text \<open>
  C10, amended. For every HTML input, if BeautifulSoup is unavailable then the readability
  adapter fails (it never succeeds without BeautifulSoup): with the error
  \<open>beautifulsoup4 not installed\<close> when readability itself is available, and with the
  error \<open>readability-lxml not installed\<close> when it is not.
\<close>

theorem readability_needs_beautifulsoup:
  assumes "get_beautifulsoup env = None"
  shows "extract_with_readability env html =
      failure (if get_readability env = None then lit ''readability-lxml not installed''
               else lit ''beautifulsoup4 not installed'') \<and>
    \<not> success (extract_with_readability env html)"
  using assms by (auto simp: extract_with_readability_def split: option.splits)

theorem readability_needs_beautifulsoup_witness:
  "get_beautifulsoup readability_only_libs = None \<and>
   get_readability readability_only_libs \<noteq> None \<and>
   \<not> success (extract_with_readability readability_only_libs blank_html) \<and>
   error (extract_with_readability readability_only_libs blank_html) =
     Some (lit ''beautifulsoup4 not installed'')"
proof -
  have bs: "get_beautifulsoup readability_only_libs = None"
    and doc: "get_readability readability_only_libs \<noteq> None"
    by (simp_all add: readability_only_libs_def)
  from readability_needs_beautifulsoup [OF bs, of blank_html] doc
  have "extract_with_readability readability_only_libs blank_html =
      failure (lit ''beautifulsoup4 not installed'')"
    by simp
  with bs doc show ?thesis by simp
qed

subsection \<open>What the BeautifulSoup adapter puts in the lists\<close>

lemma beautifulsoup_lists:
  assumes "get_beautifulsoup env = Some lib" and "bs_structure lib html = Inr sp"
  shows "headings (extract_with_beautifulsoup env html) =
           Some (map heading_of (take 50 (find_all_h sp)))"
    and "links (extract_with_beautifulsoup env html) =
           Some (map link_of (take 500 (filter (\<lambda>a. keep_href (fst a)) (find_all_a sp))))"
    and "images (extract_with_beautifulsoup env html) =
           Some (map image_of (take 100 (find_all_img sp)))"
    and "success (extract_with_beautifulsoup env html)"
  using assms
  by (simp_all add: extract_with_beautifulsoup_def beautifulsoup_try_def Let_def take_map
      ExtractionResult_init_def)

lemma level_of_case:
  "level_of n = (case n of H1 \<Rightarrow> 1 | H2 \<Rightarrow> 2 | H3 \<Rightarrow> 3 | H4 \<Rightarrow> 4 | H5 \<Rightarrow> 5 | H6 \<Rightarrow> 6)"
  by (cases n) simp_all

lemma beautifulsoup_lists_plain:
  assumes "get_beautifulsoup env = Some lib" and "bs_structure lib html = Inr sp"
  shows "headings (extract_with_beautifulsoup env html) =
      Some (map (\<lambda>h. \<lparr>h_level = (case fst h of H1 \<Rightarrow> 1 | H2 \<Rightarrow> 2 | H3 \<Rightarrow> 3
                                    | H4 \<Rightarrow> 4 | H5 \<Rightarrow> 5 | H6 \<Rightarrow> 6),
                        h_text = take 200 (snd h)\<rparr>)
             (take 50 (find_all_h sp)))"
    and "links (extract_with_beautifulsoup env html) =
      Some (map (\<lambda>a. \<lparr>l_url = fst a, l_text = take 200 (snd a)\<rparr>)
             (take 500 (filter (\<lambda>a. fst a \<noteq> [] \<and> \<not> startswith (fst a) (lit ''#'') \<and>
                                    \<not> startswith (fst a) (lit ''javascript:''))
                          (find_all_a sp))))"
    and "images (extract_with_beautifulsoup env html) =
      Some (map (\<lambda>i. \<lparr>i_url = fst i,
                        i_alt = (case snd i of None \<Rightarrow> None
                                 | Some alt \<Rightarrow> if alt = [] then None else Some (take 200 alt))\<rparr>)
             (take 100 (find_all_img sp)))"
proof -
  have h: "heading_of = (\<lambda>h. \<lparr>h_level = (case fst h of H1 \<Rightarrow> 1 | H2 \<Rightarrow> 2 | H3 \<Rightarrow> 3
                                    | H4 \<Rightarrow> 4 | H5 \<Rightarrow> 5 | H6 \<Rightarrow> 6),
                        h_text = take 200 (snd h)\<rparr>)"
    by (rule ext) (simp add: heading_of_def level_of_case)
  have l: "link_of = (\<lambda>a. \<lparr>l_url = fst a, l_text = take 200 (snd a)\<rparr>)"
    by (rule ext) (simp add: link_of_def)
  have k: "(\<lambda>a. keep_href (fst a)) =
      (\<lambda>a::pystr \<times> pystr. fst a \<noteq> [] \<and> \<not> startswith (fst a) (lit ''#'') \<and>
          \<not> startswith (fst a) (lit ''javascript:''))"
    by (rule ext) (simp add: keep_href_def)
  have i: "image_of = (\<lambda>i. \<lparr>i_url = fst i,
                        i_alt = (case snd i of None \<Rightarrow> None
                                 | Some alt \<Rightarrow> if alt = [] then None else Some (take 200 alt))\<rparr>)"
    by (rule ext) (simp add: image_of_def)
  note b = beautifulsoup_lists(1-3) [OF assms]
  from b(1) show "headings (extract_with_beautifulsoup env html) =
      Some (map (\<lambda>h. \<lparr>h_level = (case fst h of H1 \<Rightarrow> 1 | H2 \<Rightarrow> 2 | H3 \<Rightarrow> 3
                                    | H4 \<Rightarrow> 4 | H5 \<Rightarrow> 5 | H6 \<Rightarrow> 6),
                        h_text = take 200 (snd h)\<rparr>)
             (take 50 (find_all_h sp)))"
    by (simp only: h)
  from b(2) show "links (extract_with_beautifulsoup env html) =
      Some (map (\<lambda>a. \<lparr>l_url = fst a, l_text = take 200 (snd a)\<rparr>)
             (take 500 (filter (\<lambda>a. fst a \<noteq> [] \<and> \<not> startswith (fst a) (lit ''#'') \<and>
                                    \<not> startswith (fst a) (lit ''javascript:''))
                          (find_all_a sp))))"
    by (simp only: l k)
  from b(3) show "images (extract_with_beautifulsoup env html) =
      Some (map (\<lambda>i. \<lparr>i_url = fst i,
                        i_alt = (case snd i of None \<Rightarrow> None
                                 | Some alt \<Rightarrow> if alt = [] then None else Some (take 200 alt))\<rparr>)
             (take 100 (find_all_img sp)))"
    by (simp only: i)
qed

lemma links_None_trafilatura: "links (extract_with_trafilatura env html) = None"
  using extract_with_trafilatura_cases [of env html]
  by (auto simp: ExtractionResult_init_def)

lemma links_None_readability: "links (extract_with_readability env html) = None"
  using extract_with_readability_cases [of env html]
  by (auto simp: ExtractionResult_init_def)

lemma trafilatura_finds_nothing:
  assumes "get_trafilatura env = Some traf_finds_nothing"
  shows "extract_with_trafilatura env html = failure (lit ''trafilatura returned empty'')"
  using assms
  by (simp add: extract_with_trafilatura_def trafilatura_try_def traf_finds_nothing_def)

lemma readability_raises_failure:
  assumes "get_readability env = Some readability_raises"
  shows "\<not> success (extract_with_readability env html)"
  using assms
  by (simp add: extract_with_readability_def readability_try_def readability_raises_def
      split: option.splits)

lemma extract_text_structural:
  assumes "get_trafilatura env = Some traf_finds_nothing"
    and "get_readability env = Some readability_raises"
    and "get_beautifulsoup env = Some (bs_parses_to sp)"
  shows "extract_text env html = extract_with_beautifulsoup env html"
proof -
  have "success (extract_with_beautifulsoup env html)"
    by (rule beautifulsoup_lists(4) [OF assms(3)]) (simp add: bs_parses_to_def)
  with trafilatura_finds_nothing [OF assms(1)] readability_raises_failure [OF assms(2)]
  show ?thesis by (simp add: extract_text_unfold)
qed

lemma four_links_get:
  "get_trafilatura four_links_libs = Some traf_finds_nothing"
  "get_readability four_links_libs = Some readability_raises"
  "get_beautifulsoup four_links_libs = Some (bs_parses_to four_links_soup)"
  "bs_structure (bs_parses_to four_links_soup) html = Inr four_links_soup"
  "find_all_a four_links_soup =
     [(lit ''#'', lit ''top''), (lit ''javascript:void(0)'', lit ''run''),
      (lit ''/about'', lit ''About''), ([], lit ''nowhere'')]"
  by (simp_all add: four_links_libs_def four_links_soup_def bs_parses_to_def)

lemma crowded_get:
  "get_trafilatura crowded_libs = Some traf_finds_nothing"
  "get_readability crowded_libs = Some readability_raises"
  "get_beautifulsoup crowded_libs = Some (bs_parses_to crowded_soup)"
  "bs_structure (bs_parses_to crowded_soup) html = Inr crowded_soup"
  "find_all_h crowded_soup = many_headings"
  "find_all_img crowded_soup = two_images"
  "find_all_a crowded_soup =
     [(lit ''#'', lit ''top''), (lit ''javascript:void(0)'', lit ''run''),
      (lit ''/about'', lit ''About''), ([], lit ''nowhere'')]"
  by (simp_all add: crowded_libs_def crowded_soup_def four_links_soup_def bs_parses_to_def)

lemma js_links_get:
  "get_trafilatura js_links_libs = Some traf_finds_nothing"
  "get_readability js_links_libs = Some readability_raises"
  "get_beautifulsoup js_links_libs = Some (bs_parses_to js_links_soup)"
  "bs_structure (bs_parses_to js_links_soup) html = Inr js_links_soup"
  "find_all_a js_links_soup =
     [(lit ''javascript:alert(1)'', lit ''one''), (lit ''JavaScript:alert(1)'', lit ''two'')]"
  by (simp_all add: js_links_libs_def js_links_soup_def bs_parses_to_def)

lemma startswith_examples:
  "startswith (lit ''#'') (lit ''#'')"
  "startswith (lit ''javascript:void(0)'') (lit ''javascript:'')"
  "startswith (lit ''javascript:alert(1)'') (lit ''javascript:'')"
  "\<not> startswith (lit ''/about'') (lit ''#'')"
  "\<not> startswith (lit ''/about'') (lit ''javascript:'')"
  "\<not> startswith (lit ''JavaScript:alert(1)'') (lit ''#'')"
  "\<not> startswith (lit ''JavaScript:alert(1)'') (lit ''javascript:'')"
  "lit ''/about'' \<noteq> []" "lit ''JavaScript:alert(1)'' \<noteq> []"
  "lit ''javascript:void(0)'' \<noteq> []" "lit ''javascript:alert(1)'' \<noteq> []" "lit ''#'' \<noteq> []"
  by (simp_all add: startswith_def lit_def)

lemma short_texts:
  "take 200 (lit ''About'') = lit ''About''" "take 200 (lit ''two'') = lit ''two''"
  by (simp_all add: lit_def)

subsection \<open>Links\<close>

text \<open>
  C6. Links with an empty URL, a URL that is only a fragment or a URL of the
  \<open>javascript\<close> scheme are to be left out of \<open>links\<close>. The BeautifulSoup adapter
  leaves out what starts with the lower-case characters \<open>javascript:\<close> and nothing
  else of that scheme: from the candidates \<open>#\<close>, \<open>javascript:void(0)\<close>, \<open>/about\<close>
  and the empty URL it keeps only \<open>/about\<close>, but of \<open>javascript:alert(1)\<close> and
  \<open>JavaScript:alert(1)\<close> it keeps the second, in its own output and in the result of
  \<open>extract_text\<close>.
\<close>

theorem javascript_scheme_link_kept:
  "links (extract_with_beautifulsoup four_links_libs blank_html) =
     Some [\<lparr>l_url = lit ''/about'', l_text = lit ''About''\<rparr>] \<and>
   links (extract_with_beautifulsoup js_links_libs js_links_html) =
     Some [\<lparr>l_url = lit ''JavaScript:alert(1)'', l_text = lit ''two''\<rparr>] \<and>
   links (extract_text js_links_libs js_links_html) =
     Some [\<lparr>l_url = lit ''JavaScript:alert(1)'', l_text = lit ''two''\<rparr>]"
proof -
  have "links (extract_with_beautifulsoup four_links_libs blank_html) =
      Some [\<lparr>l_url = lit ''/about'', l_text = take 200 (lit ''About'')\<rparr>]"
    by (simp add: beautifulsoup_lists_plain(2) [OF four_links_get(3,4)] four_links_get(5)
        startswith_examples)
  then have a: "links (extract_with_beautifulsoup four_links_libs blank_html) =
      Some [\<lparr>l_url = lit ''/about'', l_text = lit ''About''\<rparr>]"
    by (simp add: lit_def)
  have "links (extract_with_beautifulsoup js_links_libs js_links_html) =
      Some [\<lparr>l_url = lit ''JavaScript:alert(1)'', l_text = take 200 (lit ''two'')\<rparr>]"
    by (simp add: beautifulsoup_lists_plain(2) [OF js_links_get(3,4)] js_links_get(5)
        startswith_examples)
  then have b: "links (extract_with_beautifulsoup js_links_libs js_links_html) =
      Some [\<lparr>l_url = lit ''JavaScript:alert(1)'', l_text = lit ''two''\<rparr>]"
    by (simp add: lit_def)
  with extract_text_structural [OF js_links_get(1,2,3), of js_links_html]
  have "links (extract_text js_links_libs js_links_html) =
      Some [\<lparr>l_url = lit ''JavaScript:alert(1)'', l_text = lit ''two''\<rparr>]"
    by simp
  with a b show ?thesis by blast
qed

subsection \<open>Caps and truncation\<close>

lemma heading_of_short: "length (h_text (heading_of h)) \<le> 200"
  by (simp add: heading_of_def)

lemma link_of_short: "length (l_text (link_of a)) \<le> 200"
  by (simp add: link_of_def)

lemma image_of_short: "i_alt (image_of i) = Some alt \<Longrightarrow> length alt \<le> 200"
  by (auto simp: image_of_def split: option.splits if_splits)

lemma lists_None_trafilatura:
  "headings (extract_with_trafilatura env html) = None"
  "images (extract_with_trafilatura env html) = None"
  using extract_with_trafilatura_cases [of env html]
  by (auto simp: ExtractionResult_init_def)

lemma lists_None_readability:
  "headings (extract_with_readability env html) = None"
  "images (extract_with_readability env html) = None"
  using extract_with_readability_cases [of env html]
  by (auto simp: ExtractionResult_init_def)

lemma lists_beautifulsoup:
  "(\<exists>e. extract_with_beautifulsoup env html = failure e) \<or>
   (\<exists>hs ls ims.
      headings (extract_with_beautifulsoup env html) = Some (map heading_of (take 50 hs)) \<and>
      links (extract_with_beautifulsoup env html) = Some (map link_of (take 500 ls)) \<and>
      images (extract_with_beautifulsoup env html) = Some (map image_of (take 100 ims)))"
  using extract_with_beautifulsoup_cases [of env html]
proof (elim disjE exE conjE)
  fix e assume "extract_with_beautifulsoup env html = failure e"
  then show ?thesis by blast
next
  fix lib sp t ti
  assume "get_beautifulsoup env = Some lib" and "bs_structure lib html = Inr sp"
  from beautifulsoup_lists(1-3) [OF this] show ?thesis by blast
qed

lemma lists_extract_text:
  "(headings (extract_text env html) = None \<and> links (extract_text env html) = None \<and>
    images (extract_text env html) = None) \<or>
   (\<exists>hs ls ims.
      headings (extract_text env html) = Some (map heading_of (take 50 hs)) \<and>
      links (extract_text env html) = Some (map link_of (take 500 ls)) \<and>
      images (extract_text env html) = Some (map image_of (take 100 ims)))"
  using extract_text_cases [of env html]
proof (elim disjE conjE)
  assume "extract_text env html = extract_with_trafilatura env html"
  then show ?thesis by (simp add: lists_None_trafilatura links_None_trafilatura)
next
  assume "extract_text env html = extract_with_readability env html"
  then show ?thesis by (simp add: lists_None_readability links_None_readability)
next
  assume "extract_text env html = extract_with_beautifulsoup env html"
  with lists_beautifulsoup [of env html] show ?thesis by auto
qed

text \<open>
  C7. In every result of \<open>extract_text\<close> a list field that is present stays within its
  cap (50 headings, 500 links, 100 images), and every heading text, link text and image
  alt has at most 200 characters. The BeautifulSoup adapter keeps the first elements in
  document order and cuts each text to its first 200 characters: its headings are the
  first 50 heading elements, each with the level of its name and the first 200 characters
  of its text; its links are the first 500 kept links, each with its URL and the first
  200 characters of its text; its images are the first 100 images, each with its URL and
  the first 200 characters of a non-empty alt. In particular 120 heading elements give
  exactly 50 headings, the first 50 of the document in their order.
\<close>

theorem lists_capped:
  "(\<forall>hs. headings (extract_text env html) = Some hs \<longrightarrow>
      length hs \<le> 50 \<and> (\<forall>h \<in> set hs. length (h_text h) \<le> 200)) \<and>
   (\<forall>ls. links (extract_text env html) = Some ls \<longrightarrow>
      length ls \<le> 500 \<and> (\<forall>l \<in> set ls. length (l_text l) \<le> 200)) \<and>
   (\<forall>ims. images (extract_text env html) = Some ims \<longrightarrow>
      length ims \<le> 100 \<and> (\<forall>i \<in> set ims. \<forall>alt. i_alt i = Some alt \<longrightarrow> length alt \<le> 200)) \<and>
   (\<forall>lib sp. get_beautifulsoup env = Some lib \<and> bs_structure lib html = Inr sp \<longrightarrow>
      headings (extract_with_beautifulsoup env html) =
        Some (map (\<lambda>h. \<lparr>h_level = (case fst h of H1 \<Rightarrow> 1 | H2 \<Rightarrow> 2 | H3 \<Rightarrow> 3
                                      | H4 \<Rightarrow> 4 | H5 \<Rightarrow> 5 | H6 \<Rightarrow> 6),
                          h_text = take 200 (snd h)\<rparr>)
               (take 50 (find_all_h sp))) \<and>
      links (extract_with_beautifulsoup env html) =
        Some (map (\<lambda>a. \<lparr>l_url = fst a, l_text = take 200 (snd a)\<rparr>)
               (take 500 (filter (\<lambda>a. fst a \<noteq> [] \<and> \<not> startswith (fst a) (lit ''#'') \<and>
                                      \<not> startswith (fst a) (lit ''javascript:''))
                            (find_all_a sp)))) \<and>
      images (extract_with_beautifulsoup env html) =
        Some (map (\<lambda>i. \<lparr>i_url = fst i,
                          i_alt = (case snd i of None \<Rightarrow> None
                                   | Some alt \<Rightarrow> if alt = [] then None else Some (take 200 alt))\<rparr>)
               (take 100 (find_all_img sp))) \<and>
      (length (find_all_h sp) = 120 \<longrightarrow>
         (\<exists>hs. headings (extract_with_beautifulsoup env html) = Some hs \<and> length hs = 50 \<and>
            (\<forall>i < 50.
               h_text (hs ! i) = take 200 (snd (find_all_h sp ! i)) \<and>
               h_level (hs ! i) =
                 (case fst (find_all_h sp ! i) of H1 \<Rightarrow> 1 | H2 \<Rightarrow> 2 | H3 \<Rightarrow> 3
                  | H4 \<Rightarrow> 4 | H5 \<Rightarrow> 5 | H6 \<Rightarrow> 6)))))"
proof (intro conjI allI impI)
  fix hs assume "headings (extract_text env html) = Some hs"
  with lists_extract_text [of env html]
  obtain xs where hs: "hs = map heading_of (take 50 xs)" by auto
  show "length hs \<le> 50" by (simp add: hs)
  show "\<forall>h \<in> set hs. length (h_text h) \<le> 200"
    by (auto simp: hs heading_of_short)
next
  fix ls assume "links (extract_text env html) = Some ls"
  with lists_extract_text [of env html]
  obtain xs where ls: "ls = map link_of (take 500 xs)" by auto
  show "length ls \<le> 500" by (simp add: ls)
  show "\<forall>l \<in> set ls. length (l_text l) \<le> 200"
    by (auto simp: ls link_of_short)
next
  fix ims assume "images (extract_text env html) = Some ims"
  with lists_extract_text [of env html]
  obtain xs where ims: "ims = map image_of (take 100 xs)" by auto
  show "length ims \<le> 100" by (simp add: ims)
  show "\<forall>i \<in> set ims. \<forall>alt. i_alt i = Some alt \<longrightarrow> length alt \<le> 200"
    by (auto simp: ims image_of_short)
next
  fix lib sp
  assume a: "get_beautifulsoup env = Some lib \<and> bs_structure lib html = Inr sp"
  then have lib: "get_beautifulsoup env = Some lib" and sp: "bs_structure lib html = Inr sp"
    by simp_all
  note l = beautifulsoup_lists_plain [OF lib sp]
  show "headings (extract_with_beautifulsoup env html) =
      Some (map (\<lambda>h. \<lparr>h_level = (case fst h of H1 \<Rightarrow> 1 | H2 \<Rightarrow> 2 | H3 \<Rightarrow> 3
                                    | H4 \<Rightarrow> 4 | H5 \<Rightarrow> 5 | H6 \<Rightarrow> 6),
                        h_text = take 200 (snd h)\<rparr>)
             (take 50 (find_all_h sp)))"
    by (rule l(1))
  show "links (extract_with_beautifulsoup env html) =
      Some (map (\<lambda>a. \<lparr>l_url = fst a, l_text = take 200 (snd a)\<rparr>)
             (take 500 (filter (\<lambda>a. fst a \<noteq> [] \<and> \<not> startswith (fst a) (lit ''#'') \<and>
                                    \<not> startswith (fst a) (lit ''javascript:''))
                          (find_all_a sp))))"
    by (rule l(2))
  show "images (extract_with_beautifulsoup env html) =
      Some (map (\<lambda>i. \<lparr>i_url = fst i,
                        i_alt = (case snd i of None \<Rightarrow> None
                                 | Some alt \<Rightarrow> if alt = [] then None else Some (take 200 alt))\<rparr>)
             (take 100 (find_all_img sp)))"
    by (rule l(3))
  assume "length (find_all_h sp) = 120"
  then show "\<exists>hs. headings (extract_with_beautifulsoup env html) = Some hs \<and>
      length hs = 50 \<and>
      (\<forall>i < 50.
         h_text (hs ! i) = take 200 (snd (find_all_h sp ! i)) \<and>
         h_level (hs ! i) =
           (case fst (find_all_h sp ! i) of H1 \<Rightarrow> 1 | H2 \<Rightarrow> 2 | H3 \<Rightarrow> 3
            | H4 \<Rightarrow> 4 | H5 \<Rightarrow> 5 | H6 \<Rightarrow> 6))"
    by (simp add: l(1))
qed

lemma many_headings_nth:
  "length many_headings = 120"
  "many_headings ! 0 = (H2, replicate 150 120)"
  "many_headings ! 49 = (H2, replicate 248 120)"
  by (simp_all add: many_headings_def)

theorem lists_capped_witness:
  "length (find_all_h crowded_soup) = 120 \<and>
   (\<exists>hs. headings (extract_text crowded_libs blank_html) = Some hs \<and> length hs = 50 \<and>
      hs ! 0 = \<lparr>h_level = 2, h_text = replicate 150 120\<rparr> \<and>
      hs ! 49 = \<lparr>h_level = 2, h_text = replicate 200 120\<rparr> \<and>
      length (h_text (hs ! 49)) \<le> 200) \<and>
   links (extract_text crowded_libs blank_html) =
     Some [\<lparr>l_url = lit ''/about'', l_text = lit ''About''\<rparr>] \<and>
   images (extract_text crowded_libs blank_html) =
     Some [\<lparr>i_url = lit ''a.png'', i_alt = Some (replicate 200 120)\<rparr>,
           \<lparr>i_url = lit ''b.png'', i_alt = None\<rparr>] \<and>
   length [\<lparr>l_url = lit ''/about'', l_text = lit ''About''\<rparr>] \<le> 500 \<and>
   length [\<lparr>i_url = lit ''a.png'', i_alt = Some (replicate 200 120)\<rparr>,
           \<lparr>i_url = lit ''b.png'', i_alt = None\<rparr>] \<le> 100"
proof -
  note t = lists_capped [of crowded_libs blank_html]
  have n: "length (find_all_h crowded_soup) = 120"
    by (simp add: crowded_get many_headings_nth)
  have e: "extract_text crowded_libs blank_html =
      extract_with_beautifulsoup crowded_libs blank_html"
    by (rule extract_text_structural [OF crowded_get(1,2,3)])
  have sp: "get_beautifulsoup crowded_libs = Some (bs_parses_to crowded_soup) \<and>
      bs_structure (bs_parses_to crowded_soup) blank_html = Inr crowded_soup"
    by (simp add: crowded_get)
  from t sp have b:
    "links (extract_with_beautifulsoup crowded_libs blank_html) =
        Some (map (\<lambda>a. \<lparr>l_url = fst a, l_text = take 200 (snd a)\<rparr>)
               (take 500 (filter (\<lambda>a. fst a \<noteq> [] \<and> \<not> startswith (fst a) (lit ''#'') \<and>
                                      \<not> startswith (fst a) (lit ''javascript:''))
                            (find_all_a crowded_soup))))"
    "images (extract_with_beautifulsoup crowded_libs blank_html) =
        Some (map (\<lambda>i. \<lparr>i_url = fst i,
                          i_alt = (case snd i of None \<Rightarrow> None
                                   | Some alt \<Rightarrow> if alt = [] then None else Some (take 200 alt))\<rparr>)
               (take 100 (find_all_img crowded_soup)))"
    "length (find_all_h crowded_soup) = 120 \<longrightarrow>
       (\<exists>hs. headings (extract_with_beautifulsoup crowded_libs blank_html) = Some hs \<and>
          length hs = 50 \<and>
          (\<forall>i < 50.
             h_text (hs ! i) = take 200 (snd (find_all_h crowded_soup ! i)) \<and>
             h_level (hs ! i) =
               (case fst (find_all_h crowded_soup ! i) of H1 \<Rightarrow> 1 | H2 \<Rightarrow> 2 | H3 \<Rightarrow> 3
                | H4 \<Rightarrow> 4 | H5 \<Rightarrow> 5 | H6 \<Rightarrow> 6)))"
    by blast+
  from b(3) n obtain hs
    where hs: "headings (extract_with_beautifulsoup crowded_libs blank_html) = Some hs"
      "length hs = 50"
      "\<forall>i < 50.
         h_text (hs ! i) = take 200 (snd (find_all_h crowded_soup ! i)) \<and>
         h_level (hs ! i) =
           (case fst (find_all_h crowded_soup ! i) of H1 \<Rightarrow> 1 | H2 \<Rightarrow> 2 | H3 \<Rightarrow> 3
            | H4 \<Rightarrow> 4 | H5 \<Rightarrow> 5 | H6 \<Rightarrow> 6)"
    by blast
  from hs(3) have "h_text (hs ! 0) = replicate 150 120 \<and> h_level (hs ! 0) = 2"
    and "h_text (hs ! 49) = replicate 200 120 \<and> h_level (hs ! 49) = 2"
    by (simp_all add: crowded_get many_headings_nth)
  then have h0: "hs ! 0 = \<lparr>h_level = 2, h_text = replicate 150 120\<rparr>"
    and h49: "hs ! 49 = \<lparr>h_level = 2, h_text = replicate 200 120\<rparr>"
    by simp_all
  from t hs(1) e have short: "\<forall>h \<in> set hs. length (h_text h) \<le> 200"
    by simp
  from hs(2) have "hs ! 49 \<in> set hs" by simp
  with short have "length (h_text (hs ! 49)) \<le> 200" by blast
  with h0 h49 hs(1,2) e
  have h: "\<exists>hs. headings (extract_text crowded_libs blank_html) = Some hs \<and> length hs = 50 \<and>
      hs ! 0 = \<lparr>h_level = 2, h_text = replicate 150 120\<rparr> \<and>
      hs ! 49 = \<lparr>h_level = 2, h_text = replicate 200 120\<rparr> \<and>
      length (h_text (hs ! 49)) \<le> 200"
    by simp
  from b(1) e have l: "links (extract_text crowded_libs blank_html) =
      Some [\<lparr>l_url = lit ''/about'', l_text = lit ''About''\<rparr>]"
    by (simp add: crowded_get startswith_examples short_texts)
  from b(2) e have i: "images (extract_text crowded_libs blank_html) =
      Some [\<lparr>i_url = lit ''a.png'', i_alt = Some (replicate 200 120)\<rparr>,
            \<lparr>i_url = lit ''b.png'', i_alt = None\<rparr>]"
    by (simp add: crowded_get two_images_def)
  from t l have ll: "length [\<lparr>l_url = lit ''/about'', l_text = lit ''About''\<rparr>] \<le> 500"
    by blast
  from t i have il: "length [\<lparr>i_url = lit ''a.png'', i_alt = Some (replicate 200 120)\<rparr>,
            \<lparr>i_url = lit ''b.png'', i_alt = None\<rparr>] \<le> 100"
    by blast
  from n h l i ll il show ?thesis by blast
qed

subsection \<open>Failures of the libraries\<close>








subsection \<open>Imports that raise\<close>

lemma libs_of_get [simp]:
  "get_trafilatura (libs_of imp) = loaded (import_trafilatura imp)"
  "get_beautifulsoup (libs_of imp) = loaded (import_beautifulsoup imp)"
  "get_readability (libs_of imp) = loaded (import_readability imp)"
  by (simp_all add: libs_of_def)

lemma loaded_simps [simp]:
  "loaded (Module m) = Some m" "loaded ImportError = None" "loaded (Import_raises e) = None"
  by (simp_all add: loaded_def)








subsection \<open>Compare-all mode\<close>

lemma opt_str_inject [simp]: "opt_str a = opt_str b \<longleftrightarrow> a = b"
  by (simp add: opt_str_def split: option.splits)

lemma opt_list_inject:
  assumes "inj f"
  shows "opt_list f a = opt_list f b \<longleftrightarrow> a = b"
  using assms by (auto simp: opt_list_def inj_map_eq_map split: option.splits)

lemma inj_Py_str: "inj Py_str"
  by (simp add: inj_def)

lemma inj_heading_dict: "inj heading_dict"
  by (rule injI) (simp add: heading_dict_def)

lemma inj_link_dict: "inj link_dict"
  by (rule injI) (simp add: link_dict_def)

lemma inj_image_dict: "inj image_dict"
  by (rule injI) (simp add: image_dict_def)

lemma asdict_metadata_inject [simp]: "asdict_metadata m = asdict_metadata m' \<longleftrightarrow> m = m'"
  by (auto simp: asdict_metadata_def opt_list_inject [OF inj_Py_str])

lemma asdict_metadata_not_None [simp]:
  "asdict_metadata m \<noteq> Py_None" "Py_None \<noteq> asdict_metadata m"
  by (simp_all add: asdict_metadata_def)

lemma asdict_inject: "asdict r = asdict r' \<longleftrightarrow> r = r'"
proof
  assume eq: "asdict r = asdict r'"
  then have "metadata r = metadata r'"
    by (auto simp: asdict_def split: option.splits)
  with eq show "r = r'"
    by (simp add: asdict_def opt_list_inject [OF inj_heading_dict]
        opt_list_inject [OF inj_link_dict] opt_list_inject [OF inj_image_dict])
qed simp

lemma compare_all_keys:
  "lit ''trafilatura'' \<noteq> lit ''beautifulsoup''" "lit ''trafilatura'' \<noteq> lit ''readability''"
  "lit ''trafilatura'' \<noteq> lit ''preferred''" "lit ''beautifulsoup'' \<noteq> lit ''readability''"
  "lit ''beautifulsoup'' \<noteq> lit ''preferred''" "lit ''readability'' \<noteq> lit ''preferred''"
  by (simp_all add: lit_def)

lemma main_output_all:
  "main_output env Output_all html =
     Print_json (Py_dict
       [(lit ''trafilatura'', asdict (extract_with_trafilatura env html)),
        (lit ''beautifulsoup'', asdict (extract_with_beautifulsoup env html)),
        (lit ''readability'', asdict (extract_with_readability env html)),
        (lit ''preferred'', asdict (extract_text env html))])"
  by (simp add: main_output_def)

lemma printed_entries_all:
  "printed_entry (main_output env Output_all html) (lit ''trafilatura'') =
     Some (asdict (extract_with_trafilatura env html))"
  "printed_entry (main_output env Output_all html) (lit ''beautifulsoup'') =
     Some (asdict (extract_with_beautifulsoup env html))"
  "printed_entry (main_output env Output_all html) (lit ''readability'') =
     Some (asdict (extract_with_readability env html))"
  "printed_entry (main_output env Output_all html) (lit ''preferred'') =
     Some (asdict (extract_text env html))"
  by (simp_all add: main_output_all printed_entry_def compare_all_keys
      compare_all_keys [symmetric])

lemma metadata_key:
  "lit ''success'' \<noteq> lit ''metadata''" "lit ''text'' \<noteq> lit ''metadata''"
  "lit ''word_count'' \<noteq> lit ''metadata''"
  by (simp_all add: lit_def)

lemma main_output_json:
  "main_output env Output_json html = Print_json (asdict (extract_text env html))"
  by (simp add: main_output_def asdict_def metadata_key Let_def split: option.splits)

text \<open>
  C9. In compare-all mode (\<open>--output all\<close>), for every HTML input, the entry
  \<open>preferred\<close> of the printed dictionary is the dictionary form of what
  \<open>extract_text\<close> returns on that input, and of no other result (\<open>asdict\<close> loses
  nothing); it is also what the default mode prints. The entries \<open>trafilatura\<close>,
  \<open>beautifulsoup\<close> and \<open>readability\<close> hold the results of the three adapters.
\<close>

theorem compare_all_preferred:
  "printed_entry (main_output env Output_all html) (lit ''preferred'') =
     Some (asdict (extract_text env html)) \<and>
   (\<forall>r. printed_entry (main_output env Output_all html) (lit ''preferred'') = Some (asdict r) \<longrightarrow>
      r = extract_text env html) \<and>
   main_output env Output_json html = Print_json (asdict (extract_text env html)) \<and>
   printed_entry (main_output env Output_all html) (lit ''trafilatura'') =
     Some (asdict (extract_with_trafilatura env html)) \<and>
   printed_entry (main_output env Output_all html) (lit ''beautifulsoup'') =
     Some (asdict (extract_with_beautifulsoup env html)) \<and>
   printed_entry (main_output env Output_all html) (lit ''readability'') =
     Some (asdict (extract_with_readability env html))"
  by (simp add: printed_entries_all main_output_json asdict_inject)

theorem compare_all_preferred_witness:
  "printed_entry (main_output raising_libs Output_all blank_html) (lit ''preferred'') =
     Some (asdict (failure (lit ''trafilatura error: bad markup''))) \<and>
   failure (lit ''trafilatura error: bad markup'') = extract_text raising_libs blank_html"
proof -
  note t = compare_all_preferred [of raising_libs blank_html]
  from t have "printed_entry (main_output raising_libs Output_all blank_html) (lit ''preferred'') =
      Some (asdict (extract_text raising_libs blank_html))"
    by blast
  then have p: "printed_entry (main_output raising_libs Output_all blank_html) (lit ''preferred'') =
      Some (asdict (failure (lit ''trafilatura error: bad markup'')))"
    by (simp add: extract_text_raising)
  with t have "failure (lit ''trafilatura error: bad markup'') = extract_text raising_libs blank_html"
    by blast
  with p show ?thesis by blast
qed

end
